theory Spec2Isabelle
  imports Complex_Main "HOL-Library.Log_Nat"
begin

section \<open>The game client of \<^verbatim>\<open>src/game.js\<close>\<close>

text \<open>
  The class \<^verbatim>\<open>GameClient\<close> is embedded as a record of its fields together with the
  parts of the browser it talks to (the socket, the interval timers, the console).
  Every method becomes a function from the client to an optional uncaught exception
  and the client at the moment the method returned or threw.

  Modelling conventions:
  \<^item> A JavaScript number is the rational that the double denotes; there is no \<^verbatim>\<open>NaN\<close>
    and no infinity. \<^verbatim>\<open>worldToScreen\<close> rounds its results to the nearest double
    (\<open>to_double\<close> below); the arithmetic of \<^verbatim>\<open>centerViewportOnPlayer\<close> is modelled
    without rounding.
  \<^item> A JavaScript object used as a table is the finite map of its own properties;
    names inherited from \<^verbatim>\<open>Object.prototype\<close> (such as \<^verbatim>\<open>constructor\<close>) are not
    used as keys. For \<^verbatim>\<open>keysPressed\<close> the order of \<^verbatim>\<open>Object.keys\<close> matters, so
    it is the list of its keys in insertion order (all its values are \<^verbatim>\<open>true\<close>).
  \<^item> An entity carries the identity of the JavaScript object that holds it, so that
    equality of two entities in the model means that they are the same object.
    The program never writes to a field of an entity.
  \<^item> The canvas is not modelled: \<^verbatim>\<open>draw\<close> only counts the redraw requests.
\<close>

subsection \<open>Data\<close>

datatype direction = Up | Down | Left | Right

datatype out_message = JoinGameMsg string | Move direction | Stop

datatype ready_state = CONNECTING | OPEN | CLOSING | CLOSED

datatype js_error = SyntaxError | TypeError | InvalidStateError

datatype log_level = Info | Err

record websocket =
  readyState :: ready_state
  sent :: "out_message list"

record entity =
  obj :: nat
  ent_id :: string
  ent_x :: rat
  ent_y :: rat
  facing :: string
  animationFrame :: nat
  ent_avatar :: string
  username :: string

record avatar =
  avatar_name :: string
  frames :: "(string \<times> string list) list"

record client =
  canvas_width :: nat
  canvas_height :: nat
  worldWidth :: nat
  worldHeight :: nat
  ws :: "websocket option"
  playerId :: "string option"
  players :: "string \<rightharpoonup> entity"
  avatars :: "string \<rightharpoonup> avatar"
  myPlayer :: "entity option"
  viewportX :: rat
  viewportY :: rat
  keysPressed :: "string list"
  currentMovement :: "direction option"
  movementInterval :: "nat option"
  timers :: "nat list"
  nextTimer :: nat
  console :: "(log_level \<times> string) list"
  redraws :: nat

type_synonym proc = "client \<Rightarrow> js_error option \<times> client"

text \<open>
  Sequencing of two statements: the second runs only if the first did not throw.
\<close>

definition andThen :: "proc \<Rightarrow> proc \<Rightarrow> proc" where
  "andThen f g s = (case f s of (None, s') \<Rightarrow> g s' | (Some e, s') \<Rightarrow> (Some e, s'))"

definition console_log :: "string \<Rightarrow> proc" where
  "console_log msg s = (None, s\<lparr>console := console s @ [(Info, msg)]\<rparr>)"

definition console_error :: "string \<Rightarrow> proc" where
  "console_error msg s = (None, s\<lparr>console := console s @ [(Err, msg)]\<rparr>)"

text \<open>
  \<^verbatim>\<open>draw\<close> writes to the canvas only. \<^verbatim>\<open>worldImage\<close> is set by the constructor, so
  the early return of \<^verbatim>\<open>draw\<close> is never taken.
\<close>

definition draw :: proc where
  "draw s = (None, s\<lparr>redraws := Suc (redraws s)\<rparr>)"

subsection \<open>The browser's socket and timers\<close>

text \<open>
  \<^verbatim>\<open>WebSocket.send\<close> throws while the socket is connecting, transmits when it is
  open, and discards the data once the socket is closing or closed.
\<close>

definition ws_send :: "out_message \<Rightarrow> websocket \<Rightarrow> js_error option \<times> websocket" where
  "ws_send m w =
     (case readyState w of
        CONNECTING \<Rightarrow> (Some InvalidStateError, w)
      | OPEN \<Rightarrow> (None, w\<lparr>sent := sent w @ [m]\<rparr>)
      | CLOSING \<Rightarrow> (None, w)
      | CLOSED \<Rightarrow> (None, w))"

text \<open>
  \<^verbatim>\<open>setInterval\<close> hands out a fresh handle and keeps the timer alive until
  \<^verbatim>\<open>clearInterval\<close> is called with that handle.
\<close>

definition setInterval :: "client \<Rightarrow> nat \<times> client" where
  "setInterval s = (nextTimer s, s\<lparr>timers := timers s @ [nextTimer s], nextTimer := Suc (nextTimer s)\<rparr>)"

definition clearInterval :: "nat \<Rightarrow> client \<Rightarrow> client" where
  "clearInterval t s = s\<lparr>timers := filter (\<lambda>u. u \<noteq> t) (timers s)\<rparr>"

subsection \<open>Movement controller\<close>

definition getDirectionFromKey :: "string \<Rightarrow> direction option" where
  "getDirectionFromKey key =
     (if key = ''ArrowUp'' then Some Up
      else if key = ''ArrowDown'' then Some Down
      else if key = ''ArrowLeft'' then Some Left
      else if key = ''ArrowRight'' then Some Right
      else None)"

definition sendMovementCommand :: "direction \<Rightarrow> proc" where
  "sendMovementCommand d s =
     (case ws s of
        None \<Rightarrow> (None, s)
      | Some w \<Rightarrow>
          if readyState w \<noteq> OPEN then (None, s)
          else (case ws_send (Move d) w of
                  (Some e, w') \<Rightarrow> (Some e, s\<lparr>ws := Some w'\<rparr>)
                | (None, w') \<Rightarrow> (None, s\<lparr>ws := Some w', currentMovement := Some d\<rparr>)))"

definition sendStopCommand :: proc where
  "sendStopCommand s =
     (case ws s of
        None \<Rightarrow> (None, s)
      | Some w \<Rightarrow>
          if readyState w \<noteq> OPEN then (None, s)
          else (case ws_send Stop w of
                  (Some e, w') \<Rightarrow> (Some e, s\<lparr>ws := Some w'\<rparr>)
                | (None, w') \<Rightarrow> (None, s\<lparr>ws := Some w', currentMovement := None\<rparr>)))"

text \<open>
  A timer handle is a positive number, so a stored handle passes the test
  \<^verbatim>\<open>if (this.movementInterval)\<close>; likewise a stored direction is a non-empty string.
\<close>

definition stopContinuousMovement :: proc where
  "stopContinuousMovement =
     andThen
       (\<lambda>s. case movementInterval s of
               Some t \<Rightarrow> (None, (clearInterval t s)\<lparr>movementInterval := None\<rparr>)
             | None \<Rightarrow> (None, s))
       (\<lambda>s. case currentMovement s of
               Some d \<Rightarrow> andThen sendStopCommand (\<lambda>s'. (None, s'\<lparr>currentMovement := None\<rparr>)) s
             | None \<Rightarrow> (None, s))"

definition startContinuousMovement :: "direction \<Rightarrow> proc" where
  "startContinuousMovement d =
     andThen stopContinuousMovement
    (andThen (\<lambda>s. (None, s\<lparr>currentMovement := Some d\<rparr>))
    (andThen (sendMovementCommand d)
       (\<lambda>s. case setInterval s of (t, s') \<Rightarrow> (None, s'\<lparr>movementInterval := Some t\<rparr>))))"

text \<open>The callback that \<^verbatim>\<open>startContinuousMovement\<close> hands to \<^verbatim>\<open>setInterval\<close>.\<close>

definition interval_callback :: proc where
  "interval_callback s =
     (case currentMovement s of
        Some d \<Rightarrow> sendMovementCommand d s
      | None \<Rightarrow> (None, s))"

text \<open>
  \<^verbatim>\<open>Object.keys(keysPressed).map(getDirectionFromKey).filter(dir => dir)\<close>: the four
  direction names are non-empty strings, hence truthy, and \<^verbatim>\<open>undefined\<close> is dropped.
\<close>

definition activeDirections :: "client \<Rightarrow> direction list" where
  "activeDirections s = map the (filter (\<lambda>d. d \<noteq> None) (map getDirectionFromKey (keysPressed s)))"

definition updateMovement :: proc where
  "updateMovement s =
     (case activeDirections s of
        [] \<Rightarrow> stopContinuousMovement s
      | newMovement # _ \<Rightarrow>
          if Some newMovement \<noteq> currentMovement s then startContinuousMovement newMovement s
          else (None, s))"

definition handleKeyDown :: "string \<Rightarrow> proc" where
  "handleKeyDown key s =
     (if getDirectionFromKey key \<noteq> None \<and> key \<notin> set (keysPressed s)
      then updateMovement (s\<lparr>keysPressed := keysPressed s @ [key]\<rparr>)
      else (None, s))"

definition handleKeyUp :: "string \<Rightarrow> proc" where
  "handleKeyUp key s =
     (if getDirectionFromKey key \<noteq> None \<and> key \<in> set (keysPressed s)
      then updateMovement (s\<lparr>keysPressed := filter (\<lambda>k. k \<noteq> key) (keysPressed s)\<rparr>)
      else (None, s))"

definition handleBlur :: proc where
  "handleBlur s = stopContinuousMovement (s\<lparr>keysPressed := []\<rparr>)"

subsection \<open>Double-precision numbers\<close>

text \<open>
  IEEE-754 binary64 with the default rounding, on rationals: a double is a multiple of
  the unit in the last place of its binade, with a significand of 53 bits; below
  2 to the power -1022 the unit stays 2 to the power -1074 (subnormal numbers). A result
  is rounded to the nearest double, a tie to the one with an even significand. Results
  beyond the largest double, which JavaScript turns into an infinity, are outside the
  model.
\<close>

definition pow2 :: "int \<Rightarrow> rat" where
  "pow2 k = (if 0 \<le> k then 2 ^ nat k else 1 / 2 ^ nat (- k))"

text \<open>
  The binade of a number other than 0: the integer part of the binary logarithm of its
  magnitude.
\<close>

definition binade :: "rat \<Rightarrow> int" where
  "binade q = (if 1 \<le> \<bar>q\<bar> then bitlen \<lfloor>\<bar>q\<bar>\<rfloor> - 1 else - bitlen (\<lceil>1 / \<bar>q\<bar>\<rceil> - 1))"

definition round_half_even :: "rat \<Rightarrow> int" where
  "round_half_even r =
     (if r - of_int \<lfloor>r\<rfloor> < 1 / 2 then \<lfloor>r\<rfloor>
      else if 1 / 2 < r - of_int \<lfloor>r\<rfloor> then \<lfloor>r\<rfloor> + 1
      else if even \<lfloor>r\<rfloor> then \<lfloor>r\<rfloor> else \<lfloor>r\<rfloor> + 1)"

definition ulp :: "rat \<Rightarrow> rat" where
  "ulp q = pow2 (max (binade q) (- 1022) - 52)"

definition to_double :: "rat \<Rightarrow> rat" where
  "to_double q = (if q = 0 then 0 else of_int (round_half_even (q / ulp q)) * ulp q)"

subsection \<open>World state store and protocol handling\<close>

text \<open>
  A parsed frame. The four protocol events carry the payload that the wire protocol
  prescribes for them. \<open>OtherFrame t\<close> is a parsed object whose action tag is \<open>t\<close>
  and which has no further member the handler reads; when \<open>t\<close> is none of the four
  case labels it stands for every frame with that tag, since no member is read then.
\<close>

datatype server_message =
    JoinGameSuccess string "string \<rightharpoonup> entity" "string \<rightharpoonup> avatar"
  | JoinGameFailure string
  | PlayerJoined entity avatar
  | PlayersMoved "string \<rightharpoonup> entity"
  | PlayerLeft string
  | OtherFrame string

text \<open>
  The text of an inbound frame, by what \<^verbatim>\<open>JSON.parse\<close> does with it: it throws a
  \<^verbatim>\<open>SyntaxError\<close> on text that is not JSON, and returns the parsed message otherwise.
\<close>

datatype frame = Malformed string | WellFormed server_message

fun JSON_parse :: "frame \<Rightarrow> js_error + server_message" where
  "JSON_parse (Malformed txt) = Inl SyntaxError"
| "JSON_parse (WellFormed m) = Inr m"

text \<open>
  A property access \<^verbatim>\<open>table[this.playerId]\<close> converts \<^verbatim>\<open>playerId\<close> to a property
  name; \<^verbatim>\<open>null\<close> becomes the name \<^verbatim>\<open>"null"\<close>.
\<close>

definition property_key :: "string option \<Rightarrow> string" where
  "property_key v = (case v of None \<Rightarrow> ''null'' | Some k \<Rightarrow> k)"

definition centerViewportOnPlayer :: proc where
  "centerViewportOnPlayer s =
     (case myPlayer s of
        None \<Rightarrow> console_log ''No myPlayer found'' s
      | Some p \<Rightarrow>
          andThen
            (\<lambda>s. (None, s\<lparr>viewportX := ent_x p - of_nat (canvas_width s) / 2,
                           viewportY := ent_y p - of_nat (canvas_height s) / 2\<rparr>))
         (andThen
            (\<lambda>s. (None, s\<lparr>viewportX := max 0 (min (viewportX s) (of_nat (worldWidth s) - of_nat (canvas_width s))),
                           viewportY := max 0 (min (viewportY s) (of_nat (worldHeight s) - of_nat (canvas_height s)))\<rparr>))
            (console_log ''Viewport centered at:'')) s)"

definition worldToScreen :: "client \<Rightarrow> rat \<Rightarrow> rat \<Rightarrow> rat \<times> rat" where
  "worldToScreen s worldX worldY =
     (to_double (worldX - viewportX s), to_double (worldY - viewportY s))"

definition handleServerMessage :: "server_message \<Rightarrow> proc" where
  "handleServerMessage message =
     andThen (console_log ''Received message:'')
       (case message of
          JoinGameSuccess pid tbl avs \<Rightarrow>
            andThen (\<lambda>s. (None, s\<lparr>playerId := Some pid\<rparr>))
           (andThen (\<lambda>s. (None, s\<lparr>players := tbl\<rparr>))
           (andThen (\<lambda>s. (None, s\<lparr>avatars := avs\<rparr>))
           (andThen (\<lambda>s. (None, s\<lparr>myPlayer := players s (property_key (playerId s))\<rparr>))
           (andThen centerViewportOnPlayer draw))))
        | JoinGameFailure err \<Rightarrow> console_error ''Failed to join game:''
        | PlayerJoined p a \<Rightarrow>
            andThen (\<lambda>s. (None, s\<lparr>players := (players s)(ent_id p \<mapsto> p)\<rparr>))
           (andThen (\<lambda>s. (None, s\<lparr>avatars := (avatars s)(avatar_name a \<mapsto> a)\<rparr>))
            draw)
        | PlayersMoved tbl \<Rightarrow>
            andThen (\<lambda>s. (None, s\<lparr>players := players s ++ tbl\<rparr>))
           (andThen
              (\<lambda>s. case tbl (property_key (playerId s)) of
                      Some p \<Rightarrow>
                        andThen (\<lambda>s. (None, s\<lparr>myPlayer := Some p\<rparr>))
                       (andThen centerViewportOnPlayer
                          (console_log ''Player moved to:'')) s
                    | None \<Rightarrow> (None, s))
            draw)
        | PlayerLeft pid \<Rightarrow>
            andThen (\<lambda>s. (None, s\<lparr>players := (players s)(pid := None)\<rparr>)) draw
        | OtherFrame t \<Rightarrow>
            if t = ''join_game'' then console_error ''Failed to join game:''
            else if t = ''player_joined'' then (\<lambda>s. (Some TypeError, s))
            else if t = ''players_moved'' then (\<lambda>s. (Some TypeError, s))
            else if t = ''player_left'' then
              andThen (\<lambda>s. (None, s\<lparr>players := (players s)(''undefined'' := None)\<rparr>)) draw
            else (\<lambda>s. (None, s)))"

definition onmessage :: "frame \<Rightarrow> proc" where
  "onmessage data s =
     (case JSON_parse data of
        Inl e \<Rightarrow> (Some e, s)
      | Inr message \<Rightarrow> handleServerMessage message s)"

subsection \<open>Construction and the event loop\<close>

definition joinGame :: proc where
  "joinGame s =
     (case ws s of
        None \<Rightarrow> (Some TypeError, s)
      | Some w \<Rightarrow> (case ws_send (JoinGameMsg ''Tim'') w of (r, w') \<Rightarrow> (r, s\<lparr>ws := Some w'\<rparr>)))"

text \<open>
  The constructor, for a window of the given inner width and height. Its call of
  \<^verbatim>\<open>connectToServer\<close> leaves a socket that is still connecting.
\<close>

definition GameClient :: "nat \<Rightarrow> nat \<Rightarrow> client" where
  "GameClient innerWidth innerHeight =
     \<lparr>canvas_width = innerWidth, canvas_height = innerHeight,
      worldWidth = 2048, worldHeight = 2048,
      ws = Some \<lparr>readyState = CONNECTING, sent = []\<rparr>,
      playerId = None, players = Map.empty, avatars = Map.empty, myPlayer = None,
      viewportX = 0, viewportY = 0,
      keysPressed = [], currentMovement = None, movementInterval = None,
      timers = [], nextTimer = 1, console = [], redraws = 0\<rparr>"

text \<open>
  What the browser delivers to the listeners the client registered. The browser sets
  \<^verbatim>\<open>readyState\<close> before it calls \<^verbatim>\<open>onopen\<close> or \<^verbatim>\<open>onclose\<close>; an interval fires only
  while a timer is alive.
\<close>

datatype event =
    KeyDown string
  | KeyUp string
  | Blur
  | IntervalTick
  | SocketOpen
  | SocketMessage frame
  | SocketError
  | SocketClose

definition set_readyState :: "ready_state \<Rightarrow> client \<Rightarrow> client" where
  "set_readyState r s = s\<lparr>ws := map_option (\<lambda>w. w\<lparr>readyState := r\<rparr>) (ws s)\<rparr>"

fun dispatch :: "event \<Rightarrow> proc" where
  "dispatch (KeyDown key) s = handleKeyDown key s"
| "dispatch (KeyUp key) s = handleKeyUp key s"
| "dispatch Blur s = handleBlur s"
| "dispatch IntervalTick s = (if timers s = [] then (None, s) else interval_callback s)"
| "dispatch SocketOpen s =
     andThen (console_log ''Connected to game server'') joinGame (set_readyState OPEN s)"
| "dispatch (SocketMessage data) s = onmessage data s"
| "dispatch SocketError s = console_error ''WebSocket error:'' s"
| "dispatch SocketClose s = console_log ''Disconnected from server'' (set_readyState CLOSED s)"

text \<open>
  The event loop: handlers run to completion one after the other; an exception that
  leaves a handler is reported by the browser and the next event is handled in the
  state the handler left behind.
\<close>

fun run :: "event list \<Rightarrow> client \<Rightarrow> client" where
  "run [] s = s"
| "run (e # es) s = run es (snd (dispatch e s))"

section \<open>Properties\<close>

subsection \<open>Vocabulary\<close>

text \<open>
  The transport is open when the guard of \<^verbatim>\<open>sendMovementCommand\<close> and
  \<^verbatim>\<open>sendStopCommand\<close> lets the send through; the outbox is what has been handed to
  the socket for transmission; \<open>transmit\<close> appends one message to it.
\<close>

definition transport_open :: "client \<Rightarrow> bool" where
  "transport_open s = (case ws s of None \<Rightarrow> False | Some w \<Rightarrow> readyState w = OPEN)"

definition outbox :: "client \<Rightarrow> out_message list" where
  "outbox s = (case ws s of None \<Rightarrow> [] | Some w \<Rightarrow> sent w)"

definition transmit :: "out_message \<Rightarrow> client \<Rightarrow> client" where
  "transmit m s = s\<lparr>ws := map_option (\<lambda>w. w\<lparr>sent := sent w @ [m]\<rparr>) (ws s)\<rparr>"

text \<open>The part of the client that the movement controller reads and writes.\<close>

definition movement_state ::
  "client \<Rightarrow> string list \<times> direction option \<times> nat option \<times> nat list \<times> nat \<times> websocket option" where
  "movement_state s =
     (keysPressed s, currentMovement s, movementInterval s, timers s, nextTimer s, ws s)"

text \<open>
  The invariant of the movement controller: the pressed keys are distinct recognized
  keys, the active direction is the direction of the first of them, and the resend
  timer is alive exactly while a direction is active, with no other timer alive.
\<close>

definition movement_inv :: "client \<Rightarrow> bool" where
  "movement_inv s \<longleftrightarrow>
     distinct (keysPressed s) \<and>
     (\<forall>k\<in>set (keysPressed s). getDirectionFromKey k \<noteq> None) \<and>
     (case keysPressed s of [] \<Rightarrow> None | k # _ \<Rightarrow> getDirectionFromKey k) = currentMovement s \<and>
     (movementInterval s = None \<longleftrightarrow> currentMovement s = None) \<and>
     timers s = (case movementInterval s of None \<Rightarrow> [] | Some t \<Rightarrow> [t])"

text \<open>The client after \<^verbatim>\<open>centerViewportOnPlayer\<close> has centred on the entity \<open>p\<close>.\<close>

definition recentred :: "entity \<Rightarrow> client \<Rightarrow> client" where
  "recentred p s =
     s\<lparr>viewportX := max 0 (min (ent_x p - of_nat (canvas_width s) / 2) (of_nat (worldWidth s) - of_nat (canvas_width s))),
       viewportY := max 0 (min (ent_y p - of_nat (canvas_height s) / 2) (of_nat (worldHeight s) - of_nat (canvas_height s))),
       console := console s @ [(Info, ''Viewport centered at:'')]\<rparr>"

subsection \<open>Held keys, as the keyboard sees them\<close>

text \<open>
  An event of a key sequence: a key event is for one of the recognized direction keys,
  and the window does not lose focus. Timer ticks and socket events may come in between.
\<close>

fun recognized_key_event :: "event \<Rightarrow> bool" where
  "recognized_key_event (KeyDown key) = (getDirectionFromKey key \<noteq> None)"
| "recognized_key_event (KeyUp key) = (getDirectionFromKey key \<noteq> None)"
| "recognized_key_event Blur = False"
| "recognized_key_event e = True"

text \<open>
  The keys that are held after a sequence of events, each with the position in the
  sequence of the key-down event that began its present hold. A repeated key-down of a
  held key does not begin a new hold; a key-up ends the hold.
\<close>

fun press_times :: "nat \<Rightarrow> event list \<Rightarrow> (string \<rightharpoonup> nat) \<Rightarrow> (string \<rightharpoonup> nat)" where
  "press_times i [] h = h"
| "press_times i (KeyDown key # es) h =
     press_times (Suc i) es (if h key = None then h(key \<mapsto> i) else h)"
| "press_times i (KeyUp key # es) h = press_times (Suc i) es (h(key := None))"
| "press_times i (e # es) h = press_times (Suc i) es h"

definition held_since :: "event list \<Rightarrow> string \<rightharpoonup> nat" where
  "held_since evs = press_times 0 evs Map.empty"

definition earliest_held :: "event list \<Rightarrow> string \<Rightarrow> bool" where
  "earliest_held evs key \<longleftrightarrow>
     (\<exists>t. held_since evs key = Some t \<and> (\<forall>key' t'. held_since evs key' = Some t' \<longrightarrow> t \<le> t'))"

text \<open>
  How \<^verbatim>\<open>keysPressed\<close> represents the held keys \<open>h\<close> after \<open>i\<close> events: the same keys,
  in the order of their press times.
\<close>

definition pressed_order :: "nat \<Rightarrow> (string \<rightharpoonup> nat) \<Rightarrow> client \<Rightarrow> bool" where
  "pressed_order i h s \<longleftrightarrow>
     (\<forall>k. k \<in> set (keysPressed s) \<longleftrightarrow> h k \<noteq> None) \<and>
     sorted_wrt (\<lambda>a b. the (h a) < the (h b)) (keysPressed s) \<and>
     (\<forall>k t. h k = Some t \<longrightarrow> t < i)"

subsection \<open>Releasing all keys\<close>

text \<open>
  The event releases all held keys: it is the key-up of the only pressed key, or the
  window loses focus while some key is pressed.
\<close>

fun releases_all :: "client \<Rightarrow> event \<Rightarrow> bool" where
  "releases_all s (KeyUp key) = (keysPressed s = [key])"
| "releases_all s Blur = (keysPressed s \<noteq> [])"
| "releases_all s e = False"

subsection \<open>The world state store\<close>

definition store ::
  "client \<Rightarrow> (string \<rightharpoonup> entity) \<times> (string \<rightharpoonup> avatar) \<times> string option \<times> entity option \<times> rat \<times> rat" where
  "store s = (players s, avatars s, playerId s, myPlayer s, viewportX s, viewportY s)"

definition known_actions :: "string set" where
  "known_actions = {''join_game'', ''player_joined'', ''players_moved'', ''player_left''}"

text \<open>
  The steps of \<^verbatim>\<open>handleServerMessage\<close> as state transformers: the receipt line on the
  console, \<^verbatim>\<open>centerViewportOnPlayer\<close>, and the redraw request.
\<close>

definition received :: "client \<Rightarrow> client" where
  "received s = s\<lparr>console := console s @ [(Info, ''Received message:'')]\<rparr>"

definition refocus :: "client \<Rightarrow> client" where
  "refocus s = (case myPlayer s of
                  None \<Rightarrow> s\<lparr>console := console s @ [(Info, ''No myPlayer found'')]\<rparr>
                | Some p \<Rightarrow> recentred p s)"

definition redrawn :: "client \<Rightarrow> client" where
  "redrawn s = s\<lparr>redraws := Suc (redraws s)\<rparr>"





text \<open>The events that write the avatar catalog's entry under the key \<open>k\<close>.\<close>

fun rewrites_avatar :: "string \<Rightarrow> server_message \<Rightarrow> bool" where
  "rewrites_avatar k (JoinGameSuccess pid tbl avs) = True"
| "rewrites_avatar k (PlayerJoined p a) = (avatar_name a = k)"
| "rewrites_avatar k m = False"

text \<open>
  The inverse of \<^verbatim>\<open>worldToScreen\<close> that the specification names: adding the offset
  back, in the same double arithmetic. The source has no such method.
\<close>

definition screenToWorld :: "client \<Rightarrow> rat \<Rightarrow> rat \<Rightarrow> rat \<times> rat" where
  "screenToWorld s screenX screenY =
     (to_double (screenX + viewportX s), to_double (screenY + viewportY s))"

text \<open>
  An integer or a half-integer of magnitude below 2 to the power 51: what pixel
  positions and the offsets \<^verbatim>\<open>x - canvas.width / 2\<close> computed from them are.
\<close>

definition half_unit :: "rat \<Rightarrow> bool" where
  "half_unit q \<longleftrightarrow> of_int \<lfloor>2 * q\<rfloor> = 2 * q \<and> \<bar>q\<bar> < 2 ^ 51"





subsection \<open>Sample data\<close>

definition alice :: entity where
  "alice = \<lparr>obj = 1, ent_id = ''p1'', ent_x = 100, ent_y = 100, facing = ''south'',
     animationFrame = 0, ent_avatar = ''knight'', username = ''Tim''\<rparr>"

definition bob :: entity where
  "bob = \<lparr>obj = 2, ent_id = ''p2'', ent_x = 1500, ent_y = 900, facing = ''east'',
     animationFrame = 1, ent_avatar = ''knight'', username = ''Bob''\<rparr>"

definition bob_moved :: entity where
  "bob_moved = \<lparr>obj = 3, ent_id = ''p2'', ent_x = 1504, ent_y = 900, facing = ''east'',
     animationFrame = 2, ent_avatar = ''knight'', username = ''Bob''\<rparr>"

definition carol :: entity where
  "carol = \<lparr>obj = 5, ent_id = ''p3'', ent_x = 300, ent_y = 400, facing = ''west'',
     animationFrame = 0, ent_avatar = ''knight'', username = ''Carol''\<rparr>"

definition stranger :: entity where
  "stranger = \<lparr>obj = 4, ent_id = ''null'', ent_x = 1000, ent_y = 1000, facing = ''north'',
     animationFrame = 0, ent_avatar = ''knight'', username = ''Eve''\<rparr>"


definition knight :: avatar where
  "knight = \<lparr>avatar_name = ''knight'', frames = [(''south'', [''frame0''])]\<rparr>"

definition knight_redrawn :: avatar where
  "knight_redrawn = \<lparr>avatar_name = ''knight'', frames = [(''south'', [''frame1''])]\<rparr>"

text \<open>A client in an 800 by 600 window that has joined as \<open>alice\<close>, with \<open>bob\<close> in the world.\<close>

definition joined_as_alice :: client where
  "joined_as_alice =
     run [SocketOpen,
          SocketMessage (WellFormed (JoinGameSuccess ''p1'' [''p1'' \<mapsto> alice, ''p2'' \<mapsto> bob]
             [''knight'' \<mapsto> knight]))]
       (GameClient 800 600)"

text \<open>The same window joined as \<open>bob\<close>: the viewport is centred on him, at (1100, 600).\<close>

definition joined_as_bob :: client where
  "joined_as_bob =
     run [SocketOpen,
          SocketMessage (WellFormed (JoinGameSuccess ''p2'' [''p1'' \<mapsto> alice, ''p2'' \<mapsto> bob]
             [''knight'' \<mapsto> knight]))]
       (GameClient 800 600)"


subsection \<open>The movement controller never throws and keeps its invariant\<close>

lemma sendStopCommand_eq:
  "sendStopCommand s =
     (None, if transport_open s then (transmit Stop s)\<lparr>currentMovement := None\<rparr> else s)"
  by (auto simp: sendStopCommand_def transport_open_def transmit_def ws_send_def split: option.splits)

lemma sendMovementCommand_eq:
  "sendMovementCommand d s =
     (None, if transport_open s then (transmit (Move d) s)\<lparr>currentMovement := Some d\<rparr> else s)"
  by (auto simp: sendMovementCommand_def transport_open_def transmit_def ws_send_def split: option.splits)

lemma stopContinuousMovement_eq:
  "stopContinuousMovement s =
     (None, (if currentMovement s \<noteq> None \<and> transport_open s then transmit Stop else id)
        (s\<lparr>timers := (case movementInterval s of None \<Rightarrow> timers s | Some t \<Rightarrow> filter (\<lambda>u. u \<noteq> t) (timers s)),
           movementInterval := None, currentMovement := None\<rparr>))"
  by (auto simp: stopContinuousMovement_def andThen_def sendStopCommand_eq clearInterval_def transport_open_def transmit_def split: option.splits)

lemma startContinuousMovement_eq:
  "startContinuousMovement d s =
     (case stopContinuousMovement s of (r, s1) \<Rightarrow>
        (None, (if transport_open s1 then transmit (Move d) else id)
           (s1\<lparr>currentMovement := Some d,
               timers := timers s1 @ [nextTimer s1], nextTimer := Suc (nextTimer s1),
               movementInterval := Some (nextTimer s1)\<rparr>)))"
  by (auto simp: startContinuousMovement_def andThen_def stopContinuousMovement_eq
      sendMovementCommand_eq setInterval_def transport_open_def transmit_def split: option.splits)

lemma activeDirections_recognized:
  "\<forall>k\<in>set (keysPressed s). getDirectionFromKey k \<noteq> None \<Longrightarrow>
   activeDirections s = map (\<lambda>k. the (getDirectionFromKey k)) (keysPressed s)"
  by (simp add: activeDirections_def filter_map comp_def)

lemma updateMovement_inv:
  assumes "distinct (keysPressed s)"
    and "\<forall>k\<in>set (keysPressed s). getDirectionFromKey k \<noteq> None"
    and "movementInterval s = None \<longleftrightarrow> currentMovement s = None"
    and "timers s = (case movementInterval s of None \<Rightarrow> [] | Some t \<Rightarrow> [t])"
  shows "movement_inv (snd (updateMovement s))"
    and "keysPressed (snd (updateMovement s)) = keysPressed s"
    and "fst (updateMovement s) = None"
  using assms
  by (auto simp: updateMovement_def activeDirections_recognized movement_inv_def
      startContinuousMovement_eq stopContinuousMovement_eq transmit_def
      split: list.splits option.splits)

lemma handleKeyDown_inv:
  "movement_inv s \<Longrightarrow> movement_inv (snd (handleKeyDown key s))"
  by (simp add: handleKeyDown_def) (rule impI, rule updateMovement_inv; auto simp: movement_inv_def split: option.splits)

lemma handleKeyDown_keys:
  "movement_inv s \<Longrightarrow> keysPressed (snd (handleKeyDown key s)) =
     (if getDirectionFromKey key \<noteq> None \<and> key \<notin> set (keysPressed s) then keysPressed s @ [key] else keysPressed s)"
  by (simp add: handleKeyDown_def) (intro impI, subst updateMovement_inv(2); auto simp: movement_inv_def split: option.splits)

lemma handleKeyUp_keys:
  "movement_inv s \<Longrightarrow> keysPressed (snd (handleKeyUp key s)) =
     (if getDirectionFromKey key \<noteq> None \<and> key \<in> set (keysPressed s) then filter (\<lambda>k. k \<noteq> key) (keysPressed s) else keysPressed s)"
  by (simp add: handleKeyUp_def) (intro impI, subst updateMovement_inv(2); auto simp: movement_inv_def split: option.splits)

lemma handleKeyUp_inv:
  "movement_inv s \<Longrightarrow> movement_inv (snd (handleKeyUp key s))"
  by (simp add: handleKeyUp_def) (rule impI, rule updateMovement_inv; auto simp: movement_inv_def split: option.splits)

lemma transmit_fields:
  "keysPressed ((if c then transmit m else id) s) = keysPressed s"
  "currentMovement ((if c then transmit m else id) s) = currentMovement s"
  "movementInterval ((if c then transmit m else id) s) = movementInterval s"
  "timers ((if c then transmit m else id) s) = timers s"
  by (simp_all add: transmit_def)

lemma handleBlur_inv: "movement_inv s \<Longrightarrow> movement_inv (snd (handleBlur s))"
  by (simp add: handleBlur_def stopContinuousMovement_eq movement_inv_def transmit_fields
      split: option.splits)

lemma interval_callback_inv: "movement_inv s \<Longrightarrow> movement_inv (snd (interval_callback s))"
proof (cases "currentMovement s")
  case None
  then show "movement_inv s \<Longrightarrow> ?thesis" by (simp add: interval_callback_def)
next
  case (Some d)
  then have "snd (interval_callback s) = (if transport_open s then transmit (Move d) s else s)"
    by (cases s) (simp add: interval_callback_def sendMovementCommand_eq transmit_def)
  then show "movement_inv s \<Longrightarrow> ?thesis"
    by (simp add: movement_inv_def transmit_def)
qed

lemma centerViewportOnPlayer_eq:
  "centerViewportOnPlayer s =
     (None, case myPlayer s of
              None \<Rightarrow> s\<lparr>console := console s @ [(Info, ''No myPlayer found'')]\<rparr>
            | Some p \<Rightarrow> recentred p s)"
  by (simp add: centerViewportOnPlayer_def andThen_def console_log_def recentred_def
      split: option.splits)

lemma recentred_movement: "movement_state (recentred p s) = movement_state s"
  by (simp add: recentred_def movement_state_def)

lemma handleServerMessage_movement:
  "movement_state (snd (handleServerMessage m s)) = movement_state s"
proof (cases m)
  case (JoinGameSuccess pid tbl avs)
  then show ?thesis
    by (simp add: handleServerMessage_def andThen_def console_log_def draw_def
        centerViewportOnPlayer_eq movement_state_def recentred_def split: option.splits)
next
  case (PlayersMoved tbl)
  then show ?thesis
    by (simp add: handleServerMessage_def andThen_def console_log_def draw_def
        centerViewportOnPlayer_eq movement_state_def recentred_def split: option.splits)
qed (simp_all add: handleServerMessage_def andThen_def console_log_def console_error_def draw_def
      movement_state_def)

lemma onmessage_movement: "movement_state (snd (onmessage f s)) = movement_state s"
  by (cases f) (simp_all add: onmessage_def handleServerMessage_movement)

lemma movement_inv_cong:
  "movement_state s' = movement_state s \<Longrightarrow> movement_inv s' = movement_inv s"
  by (simp add: movement_state_def movement_inv_def)

lemma dispatch_inv:
  assumes "movement_inv s"
  shows "movement_inv (snd (dispatch e s))"
proof (cases e)
  case (KeyDown key)
  with assms show ?thesis by (simp add: handleKeyDown_inv)
next
  case (KeyUp key)
  with assms show ?thesis by (simp add: handleKeyUp_inv)
next
  case Blur
  with assms show ?thesis by (simp add: handleBlur_inv)
next
  case IntervalTick
  with assms show ?thesis by (simp add: interval_callback_inv)
next
  case SocketOpen
  with assms show ?thesis
    by (simp add: andThen_def console_log_def joinGame_def set_readyState_def movement_inv_def
        split: option.splits prod.splits)
next
  case (SocketMessage f)
  with assms show ?thesis by (simp add: movement_inv_cong [OF onmessage_movement])
next
  case SocketError
  with assms show ?thesis by (simp add: console_error_def movement_inv_def)
next
  case SocketClose
  with assms show ?thesis by (simp add: console_log_def set_readyState_def movement_inv_def)
qed

lemma GameClient_inv: "movement_inv (GameClient w h)"
  by (simp add: movement_inv_def GameClient_def)

lemma run_inv: "movement_inv s \<Longrightarrow> movement_inv (run evs s)"
  by (induction evs arbitrary: s) (simp_all add: dispatch_inv)

lemma filter_absent: "key \<notin> set ks \<Longrightarrow> filter (\<lambda>k. k \<noteq> key) ks = ks"
  by (induction ks) auto

lemma dispatch_keys:
  assumes "movement_inv s"
  shows "keysPressed (snd (dispatch e s)) =
     (case e of
        KeyDown key \<Rightarrow>
          if getDirectionFromKey key \<noteq> None \<and> key \<notin> set (keysPressed s)
          then keysPressed s @ [key] else keysPressed s
      | KeyUp key \<Rightarrow>
          if getDirectionFromKey key \<noteq> None then filter (\<lambda>k. k \<noteq> key) (keysPressed s)
          else keysPressed s
      | Blur \<Rightarrow> []
      | _ \<Rightarrow> keysPressed s)"
proof (cases e)
  case (KeyDown key)
  with assms show ?thesis by (simp add: handleKeyDown_keys)
next
  case (KeyUp key)
  with assms show ?thesis by (simp add: handleKeyUp_keys filter_absent)
next
  case Blur
  then show ?thesis by (simp add: handleBlur_def stopContinuousMovement_eq transmit_fields)
next
  case IntervalTick
  then show ?thesis
    by (simp add: interval_callback_def sendMovementCommand_eq transmit_def split: option.splits)
next
  case SocketOpen
  then show ?thesis
    by (simp add: andThen_def console_log_def joinGame_def set_readyState_def
        split: option.splits prod.splits)
next
  case (SocketMessage f)
  then show ?thesis using onmessage_movement [of f s] by (simp add: movement_state_def)
next
  case SocketError
  then show ?thesis by (simp add: console_error_def)
next
  case SocketClose
  then show ?thesis by (simp add: console_log_def set_readyState_def)
qed

lemma pressed_order_append:
  assumes ord: "pressed_order i h s" and fresh: "key \<notin> set (keysPressed s)"
    and keys: "keysPressed s' = keysPressed s @ [key]"
  shows "pressed_order (Suc i) (h(key \<mapsto> i)) s'"
  unfolding pressed_order_def
proof (intro conjI)
  show "\<forall>k. k \<in> set (keysPressed s') \<longleftrightarrow> (h(key \<mapsto> i)) k \<noteq> None"
    using ord keys by (simp add: pressed_order_def)
  show "\<forall>k t. (h(key \<mapsto> i)) k = Some t \<longrightarrow> t < Suc i"
  proof (intro allI impI)
    fix k t assume "(h(key \<mapsto> i)) k = Some t"
    then have "t = i \<or> h k = Some t" by (auto split: if_splits)
    with ord show "t < Suc i" by (auto simp: pressed_order_def less_Suc_eq)
  qed
  have old: "sorted_wrt (\<lambda>a b. the ((h(key \<mapsto> i)) a) < the ((h(key \<mapsto> i)) b)) (keysPressed s)"
  proof (rule sorted_wrt_mono_rel [of _ "\<lambda>a b. the (h a) < the (h b)"])
    show "sorted_wrt (\<lambda>a b. the (h a) < the (h b)) (keysPressed s)"
      using ord by (simp add: pressed_order_def)
  next
    fix x y assume "x \<in> set (keysPressed s)" "y \<in> set (keysPressed s)" "the (h x) < the (h y)"
    with fresh show "the ((h(key \<mapsto> i)) x) < the ((h(key \<mapsto> i)) y)" by auto
  qed
  have below: "\<forall>a\<in>set (keysPressed s). the ((h(key \<mapsto> i)) a) < i"
  proof
    fix a assume a: "a \<in> set (keysPressed s)"
    with ord obtain t where "h a = Some t" "t < i" by (auto simp: pressed_order_def)
    with a fresh show "the ((h(key \<mapsto> i)) a) < i" by auto
  qed
  show "sorted_wrt (\<lambda>a b. the ((h(key \<mapsto> i)) a) < the ((h(key \<mapsto> i)) b)) (keysPressed s')"
    using old below by (simp only: keys sorted_wrt_append) simp
qed

lemma pressed_order_remove:
  assumes ord: "pressed_order i h s"
    and keys: "keysPressed s' = filter (\<lambda>k. k \<noteq> key) (keysPressed s)"
  shows "pressed_order (Suc i) (h(key := None)) s'"
  unfolding pressed_order_def
proof (intro conjI)
  show "\<forall>k. k \<in> set (keysPressed s') \<longleftrightarrow> (h(key := None)) k \<noteq> None"
    using ord keys by (simp add: pressed_order_def)
  show "\<forall>k t. (h(key := None)) k = Some t \<longrightarrow> t < Suc i"
  proof (intro allI impI)
    fix k t assume "(h(key := None)) k = Some t"
    then have "h k = Some t" by (auto split: if_splits)
    with ord show "t < Suc i" by (auto simp: pressed_order_def less_Suc_eq)
  qed
  have "sorted_wrt (\<lambda>a b. the (h a) < the (h b)) (filter (\<lambda>k. k \<noteq> key) (keysPressed s))"
    using ord by (simp add: pressed_order_def sorted_wrt_filter)
  then have "sorted_wrt (\<lambda>a b. the ((h(key := None)) a) < the ((h(key := None)) b))
      (filter (\<lambda>k. k \<noteq> key) (keysPressed s))"
    by (rule sorted_wrt_mono_rel [rotated]) simp
  then show "sorted_wrt (\<lambda>a b. the ((h(key := None)) a) < the ((h(key := None)) b)) (keysPressed s')"
    by (simp only: keys)
qed

lemma pressed_order_same:
  assumes "pressed_order i h s" and "keysPressed s' = keysPressed s"
  shows "pressed_order (Suc i) h s'"
  using assms by (auto simp: pressed_order_def less_Suc_eq)

lemma pressed_order_step:
  assumes inv: "movement_inv s" and ord: "pressed_order i h s" and ok: "recognized_key_event e"
  shows "pressed_order (Suc i) (press_times i [e] h) (snd (dispatch e s))"
proof (cases e)
  case (KeyDown key)
  show ?thesis
  proof (cases "key \<in> set (keysPressed s)")
    case True
    with ord have "h key \<noteq> None" by (simp add: pressed_order_def)
    then have "press_times i [e] h = h" using KeyDown by auto
    moreover have "keysPressed (snd (dispatch e s)) = keysPressed s"
      using True KeyDown dispatch_keys [OF inv, of e] by simp
    ultimately show ?thesis using ord by (simp add: pressed_order_same)
  next
    case False
    with ord have "h key = None" by (simp add: pressed_order_def)
    then have "press_times i [e] h = h(key \<mapsto> i)" using KeyDown by simp
    moreover have "keysPressed (snd (dispatch e s)) = keysPressed s @ [key]"
      using False KeyDown ok dispatch_keys [OF inv, of e] by simp
    ultimately show ?thesis using ord False by (simp add: pressed_order_append)
  qed
next
  case (KeyUp key)
  have "keysPressed (snd (dispatch e s)) = filter (\<lambda>k. k \<noteq> key) (keysPressed s)"
    using KeyUp ok dispatch_keys [OF inv, of e] by simp
  moreover have "press_times i [e] h = h(key := None)" using KeyUp by simp
  ultimately show ?thesis using ord by (simp add: pressed_order_remove)
next
  case Blur
  with ok show ?thesis by simp
next
  case IntervalTick
  then show ?thesis using ord dispatch_keys [OF inv, of e] by (simp add: pressed_order_same)
next
  case SocketOpen
  then show ?thesis using ord dispatch_keys [OF inv, of e] by (simp add: pressed_order_same)
next
  case (SocketMessage f)
  then show ?thesis using ord dispatch_keys [OF inv, of e] by (simp add: pressed_order_same)
next
  case SocketError
  then show ?thesis using ord dispatch_keys [OF inv, of e] by (simp add: pressed_order_same)
next
  case SocketClose
  then show ?thesis using ord dispatch_keys [OF inv, of e] by (simp add: pressed_order_same)
qed

lemma press_times_Cons: "press_times i (e # es) h = press_times (Suc i) es (press_times i [e] h)"
  by (cases e) simp_all

lemma pressed_order_run:
  "movement_inv s \<Longrightarrow> pressed_order i h s \<Longrightarrow> \<forall>e\<in>set evs. recognized_key_event e \<Longrightarrow>
   pressed_order (i + length evs) (press_times i evs h) (run evs s)"
proof (induction evs arbitrary: i h s)
  case Nil
  then show ?case by simp
next
  case (Cons e es)
  have "pressed_order (Suc i + length es) (press_times (Suc i) es (press_times i [e] h))
      (run es (snd (dispatch e s)))"
    using Cons.prems by (intro Cons.IH dispatch_inv pressed_order_step) auto
  then show ?case by (simp add: press_times_Cons [of i e es])
qed

lemma pressed_order_first:
  assumes "movement_inv s" and "pressed_order i h s"
  shows "(currentMovement s = None \<longleftrightarrow> (\<forall>key. h key = None)) \<and>
    (\<forall>d. currentMovement s = Some d \<longrightarrow>
       (\<exists>key t. h key = Some t \<and> (\<forall>key' t'. h key' = Some t' \<longrightarrow> t \<le> t') \<and>
          getDirectionFromKey key = Some d))"
proof (cases "keysPressed s")
  case Nil
  with assms show ?thesis by (auto simp: movement_inv_def pressed_order_def)
next
  case (Cons k ks)
  from assms(2) have "k \<in> set (keysPressed s) \<longleftrightarrow> h k \<noteq> None"
    by (simp add: pressed_order_def)
  with Cons obtain t where t: "h k = Some t" by auto
  have least: "t \<le> t'" if "h key' = Some t'" for key' t'
  proof -
    from assms(2) have "key' \<in> set (keysPressed s) \<longleftrightarrow> h key' \<noteq> None"
      by (simp add: pressed_order_def)
    with that have "key' = k \<or> key' \<in> set ks" by (simp add: Cons)
    moreover from assms(2) have "\<forall>x\<in>set ks. the (h k) < the (h x)"
      by (simp add: pressed_order_def Cons)
    ultimately show ?thesis using t that by auto
  qed
  from assms(1) Cons have cm: "currentMovement s = getDirectionFromKey k" "getDirectionFromKey k \<noteq> None"
    by (auto simp: movement_inv_def)
  with t least show ?thesis by auto
qed

lemma GameClient_pressed_order: "pressed_order 0 Map.empty (GameClient w h)"
  by (simp add: pressed_order_def GameClient_def)

subsection \<open>Stopping\<close>

lemma outbox_transmit: "outbox ((if c then transmit m else id) s) = outbox s @ (if c \<and> ws s \<noteq> None then [m] else [])"
  by (auto simp: outbox_def transmit_def split: option.splits)

lemma stop_effect:
  assumes "currentMovement s \<noteq> None"
  shows "outbox (snd (stopContinuousMovement s)) = outbox s @ (if transport_open s then [Stop] else [])"
    and "timers (snd (stopContinuousMovement s)) =
       (case movementInterval s of None \<Rightarrow> timers s | Some t \<Rightarrow> filter (\<lambda>u. u \<noteq> t) (timers s))"
    and "movementInterval (snd (stopContinuousMovement s)) = None"
    and "currentMovement (snd (stopContinuousMovement s)) = None"
    and "fst (stopContinuousMovement s) = None"
    and "keysPressed (snd (stopContinuousMovement s)) = keysPressed s"
  using assms
  by (auto simp: stopContinuousMovement_eq outbox_def transmit_def transport_open_def
      split: option.splits)

lemma movement_inv_head:
  assumes "movement_inv s" and "keysPressed s = k # ks"
  shows "currentMovement s = getDirectionFromKey k" and "getDirectionFromKey k \<noteq> None"
proof -
  from assms have "getDirectionFromKey k = currentMovement s" by (simp add: movement_inv_def)
  then show "currentMovement s = getDirectionFromKey k" by simp
  from assms have "\<forall>k\<in>set (k # ks). getDirectionFromKey k \<noteq> None"
    unfolding movement_inv_def by metis
  then show "getDirectionFromKey k \<noteq> None" by (metis list.set_intros(1))
qed

subsection \<open>What each protocol event does to the client\<close>

lemma handle_JoinGameSuccess:
  "handleServerMessage (JoinGameSuccess pid tbl avs) s =
     (None, redrawn (refocus ((received s)\<lparr>playerId := Some pid, players := tbl, avatars := avs,
        myPlayer := tbl pid\<rparr>)))"
  by (simp add: handleServerMessage_def andThen_def console_log_def draw_def
      centerViewportOnPlayer_eq received_def refocus_def redrawn_def property_key_def
      split: option.splits)

lemma handle_JoinGameFailure:
  "handleServerMessage (JoinGameFailure err) s =
     (None, (received s)\<lparr>console := console (received s) @ [(Err, ''Failed to join game:'')]\<rparr>)"
  by (simp add: handleServerMessage_def andThen_def console_log_def console_error_def received_def)

lemma handle_PlayerJoined:
  "handleServerMessage (PlayerJoined p a) s =
     (None, redrawn ((received s)\<lparr>players := (players s)(ent_id p \<mapsto> p),
        avatars := (avatars s)(avatar_name a \<mapsto> a)\<rparr>))"
  by (simp add: handleServerMessage_def andThen_def console_log_def draw_def received_def redrawn_def)

lemma handle_PlayersMoved:
  "handleServerMessage (PlayersMoved tbl) s =
     (None, redrawn (case tbl (property_key (playerId s)) of
        None \<Rightarrow> (received s)\<lparr>players := players s ++ tbl\<rparr>
      | Some p \<Rightarrow> (\<lambda>s'. s'\<lparr>console := console s' @ [(Info, ''Player moved to:'')]\<rparr>)
          (recentred p ((received s)\<lparr>players := players s ++ tbl, myPlayer := Some p\<rparr>))))"
  by (simp add: handleServerMessage_def andThen_def console_log_def draw_def
      centerViewportOnPlayer_eq received_def redrawn_def split: option.splits)

lemma handle_PlayerLeft:
  "handleServerMessage (PlayerLeft pid) s =
     (None, redrawn ((received s)\<lparr>players := (players s)(pid := None)\<rparr>))"
  by (simp add: handleServerMessage_def andThen_def console_log_def draw_def received_def redrawn_def)

lemma handle_OtherFrame:
  "t \<notin> known_actions \<Longrightarrow> handleServerMessage (OtherFrame t) s = (None, received s)"
  by (simp add: handleServerMessage_def andThen_def console_log_def received_def known_actions_def)

lemma handle_OtherFrame_any:
  "fst (handleServerMessage (OtherFrame t) s) \<in> {None, Some TypeError} \<and>
   avatars (snd (handleServerMessage (OtherFrame t) s)) = avatars s \<and>
   myPlayer (snd (handleServerMessage (OtherFrame t) s)) = myPlayer s \<and>
   playerId (snd (handleServerMessage (OtherFrame t) s)) = playerId s \<and>
   players (snd (handleServerMessage (OtherFrame t) s)) =
     (if t = ''player_left'' then (players s)(''undefined'' := None) else players s)"
  by (simp add: handleServerMessage_def andThen_def console_log_def console_error_def draw_def)

lemma refocus_fields:
  "players (refocus s) = players s" "avatars (refocus s) = avatars s"
  "playerId (refocus s) = playerId s" "myPlayer (refocus s) = myPlayer s"
  by (simp_all add: refocus_def recentred_def split: option.splits)

lemma redrawn_fields:
  "players (redrawn s) = players s" "avatars (redrawn s) = avatars s"
  "playerId (redrawn s) = playerId s" "myPlayer (redrawn s) = myPlayer s"
  "viewportX (redrawn s) = viewportX s" "viewportY (redrawn s) = viewportY s"
  by (simp_all add: redrawn_def)

lemma received_fields:
  "players (received s) = players s" "avatars (received s) = avatars s"
  "playerId (received s) = playerId s" "myPlayer (received s) = myPlayer s"
  "viewportX (received s) = viewportX s" "viewportY (received s) = viewportY s"
  by (simp_all add: received_def)

lemma recentred_fields:
  "players (recentred p s) = players s" "avatars (recentred p s) = avatars s"
  "playerId (recentred p s) = playerId s" "myPlayer (recentred p s) = myPlayer s"
  by (simp_all add: recentred_def)

subsection \<open>Rounding is exact on integers and half-integers\<close>

lemma round_half_even_of_int: "round_half_even (of_int n) = n"
  by (simp add: round_half_even_def)

lemma binade_le:
  assumes "\<bar>q\<bar> < 2 ^ 52"
  shows "binade q \<le> 51"
proof (cases "1 \<le> \<bar>q\<bar>")
  case True
  from assms have "\<lfloor>\<bar>q\<bar>\<rfloor> < 2 ^ 52" by (simp add: floor_less_iff)
  then have "bitlen \<lfloor>\<bar>q\<bar>\<rfloor> \<le> 52" by (simp add: bitlen_le_iff_power)
  with True show ?thesis by (simp add: binade_def)
next
  case False
  with bitlen_nonneg [of "\<lceil>1 / \<bar>q\<bar>\<rceil> - 1"] show ?thesis by (simp add: binade_def)
qed

lemma ulp_half_grid:
  assumes "\<bar>q\<bar> < 2 ^ 52"
  obtains j :: nat where "ulp q = 1 / 2 ^ Suc j"
proof -
  define k where "k = max (binade q) (- 1022) - 52"
  from binade_le [OF assms] have "k \<le> - 1" by (simp add: k_def)
  then have "nat (- k) = Suc (nat (- k - 1))" by simp
  moreover from \<open>k \<le> - 1\<close> have "ulp q = 1 / 2 ^ nat (- k)"
    by (simp add: ulp_def pow2_def k_def)
  ultimately show ?thesis using that by metis
qed

lemma to_double_half_grid:
  assumes "of_int \<lfloor>2 * q\<rfloor> = 2 * q" and "\<bar>q\<bar> < 2 ^ 52"
  shows "to_double q = q"
proof (cases "q = 0")
  case True
  then show ?thesis by (simp add: to_double_def)
next
  case False
  obtain j :: nat where u: "ulp q = 1 / 2 ^ Suc j" by (rule ulp_half_grid [OF assms(2)])
  define m where "m = \<lfloor>2 * q\<rfloor>"
  have tq: "2 * q = of_int m" unfolding m_def by (rule assms(1) [symmetric])
  have "q / ulp q = (2 * q) * 2 ^ j" unfolding u by simp
  also have "\<dots> = of_int (m * 2 ^ j)" unfolding tq by simp
  finally have "round_half_even (q / ulp q) = m * 2 ^ j" by (simp only: round_half_even_of_int)
  then have "to_double q = of_int (m * 2 ^ j) * (1 / 2 ^ Suc j)"
    using False unfolding to_double_def u by simp
  also have "\<dots> = of_int m / 2" by simp
  also have "\<dots> = q" using tq by simp
  finally show ?thesis .
qed

lemma half_unit_exact:
  assumes "half_unit q"
  shows "to_double q = q"
proof (rule to_double_half_grid)
  from assms show "of_int \<lfloor>2 * q\<rfloor> = 2 * q" unfolding half_unit_def by blast
  from assms have "\<bar>q\<bar> < 2 ^ 51" unfolding half_unit_def by blast
  moreover have "(2::rat) ^ 51 < 2 ^ 52" by simp
  ultimately show "\<bar>q\<bar> < 2 ^ 52" by linarith
qed

lemma half_unit_combine:
  assumes "half_unit a" and "half_unit b"
  shows "to_double (a - b) = a - b" and "to_double (a + b) = a + b"
proof -
  from assms have ga: "of_int \<lfloor>2 * a\<rfloor> = 2 * a" and gb: "of_int \<lfloor>2 * b\<rfloor> = 2 * b"
    and ba: "\<bar>a\<bar> < 2 ^ 51" and bb: "\<bar>b\<bar> < 2 ^ 51"
    unfolding half_unit_def by blast+
  have "(2::rat) ^ 52 = 2 ^ 51 + 2 ^ 51" by simp
  with ba bb have "\<bar>a - b\<bar> < 2 ^ 52" "\<bar>a + b\<bar> < 2 ^ 52" by linarith+
  moreover have "of_int (\<lfloor>2 * a\<rfloor> - \<lfloor>2 * b\<rfloor>) = 2 * (a - b)"
    "of_int (\<lfloor>2 * a\<rfloor> + \<lfloor>2 * b\<rfloor>) = 2 * (a + b)"
    unfolding of_int_diff of_int_add ga gb by (simp_all add: algebra_simps)
  then have "of_int \<lfloor>2 * (a - b)\<rfloor> = 2 * (a - b)" "of_int \<lfloor>2 * (a + b)\<rfloor> = 2 * (a + b)"
    by (metis floor_of_int)+
  ultimately show "to_double (a - b) = a - b" and "to_double (a + b) = a + b"
    by (simp_all add: to_double_half_grid)
qed

subsection \<open>Only messages write the store\<close>







subsection \<open>The local-player reference along a run\<close>








subsection \<open>The sample runs, evaluated\<close>

lemma joined_as_alice_eval:
  "myPlayer joined_as_alice = Some alice"
  "playerId joined_as_alice = Some ''p1''"
  "players joined_as_alice = [''p1'' \<mapsto> alice, ''p2'' \<mapsto> bob]"
  "avatars joined_as_alice = [''knight'' \<mapsto> knight]"
  "canvas_width joined_as_alice = 800" "canvas_height joined_as_alice = 600"
  "worldWidth joined_as_alice = 2048" "worldHeight joined_as_alice = 2048"
  "viewportX joined_as_alice = 0" "viewportY joined_as_alice = 0"
  "outbox joined_as_alice = [JoinGameMsg ''Tim'']"
  "transport_open joined_as_alice"
  by (simp_all add: joined_as_alice_def andThen_def console_log_def joinGame_def ws_send_def
      set_readyState_def onmessage_def handle_JoinGameSuccess redrawn_def refocus_def
      recentred_def received_def GameClient_def alice_def outbox_def transport_open_def)


lemma moving_up_eval:
  "keysPressed (run [SocketOpen, KeyDown ''ArrowUp''] (GameClient 800 600)) = [''ArrowUp'']"
  "outbox (run [SocketOpen, KeyDown ''ArrowUp''] (GameClient 800 600)) = [JoinGameMsg ''Tim'', Move Up]"
  "transport_open (run [SocketOpen, KeyDown ''ArrowUp''] (GameClient 800 600))"
  "keysPressed (run [SocketOpen, KeyDown ''ArrowUp'', SocketClose] (GameClient 800 600)) = [''ArrowUp'']"
  "outbox (run [SocketOpen, KeyDown ''ArrowUp'', SocketClose] (GameClient 800 600))
     = [JoinGameMsg ''Tim'', Move Up]"
  "outbox (snd (dispatch (KeyUp ''ArrowUp'')
      (run [SocketOpen, KeyDown ''ArrowUp'', SocketClose] (GameClient 800 600))))
     = [JoinGameMsg ''Tim'', Move Up]"
  "timers (snd (dispatch (KeyUp ''ArrowUp'')
      (run [SocketOpen, KeyDown ''ArrowUp'', SocketClose] (GameClient 800 600)))) = []"
  by code_simp+

lemma joined_as_bob_eval:
  "viewportX joined_as_bob = 1100" "viewportY joined_as_bob = 600"
  by (simp_all add: joined_as_bob_def andThen_def console_log_def joinGame_def ws_send_def
      set_readyState_def onmessage_def handle_JoinGameSuccess redrawn_def refocus_def
      recentred_def received_def GameClient_def bob_def)


section \<open>The specified properties\<close>

subsection \<open>C1: the active direction\<close>

text \<open>
  C1. For every sequence of key-down and key-up events for recognized direction keys
  (timer ticks and socket events in between allowed), after each event the active
  direction \<^verbatim>\<open>currentMovement\<close> is the direction of the earliest-pressed key that is
  still held, and it is \<^verbatim>\<open>null\<close> exactly when no key is held. The state after each
  event is the state after a prefix \<open>take n evs\<close> of the sequence.
\<close>

theorem currentMovement_earliest_held:
  assumes "\<forall>e\<in>set evs. recognized_key_event e"
  shows "(currentMovement (run (take n evs) (GameClient w h)) = None \<longleftrightarrow>
            (\<forall>key. held_since (take n evs) key = None)) \<and>
         (\<forall>d. currentMovement (run (take n evs) (GameClient w h)) = Some d \<longrightarrow>
            (\<exists>key. earliest_held (take n evs) key \<and> getDirectionFromKey key = Some d))"
proof -
  from assms have ok: "\<forall>e\<in>set (take n evs). recognized_key_event e"
    by (meson in_set_takeD)
  have inv: "movement_inv (run (take n evs) (GameClient w h))"
    by (rule run_inv [OF GameClient_inv])
  have "pressed_order (0 + length (take n evs)) (press_times 0 (take n evs) Map.empty)
      (run (take n evs) (GameClient w h))"
    by (rule pressed_order_run [OF GameClient_inv GameClient_pressed_order ok])
  from pressed_order_first [OF inv this] show ?thesis
    unfolding earliest_held_def held_since_def by blast
qed

theorem currentMovement_earliest_held_witness:
  "list_all recognized_key_event
      [KeyDown ''ArrowRight'', KeyDown ''ArrowUp'', KeyUp ''ArrowRight''] \<and>
   currentMovement (run [KeyDown ''ArrowRight'', KeyDown ''ArrowUp'', KeyUp ''ArrowRight'']
      (GameClient 800 600)) = Some Up \<and>
   earliest_held [KeyDown ''ArrowRight'', KeyDown ''ArrowUp'', KeyUp ''ArrowRight''] ''ArrowUp''"
proof -
  let ?evs = "[KeyDown ''ArrowRight'', KeyDown ''ArrowUp'', KeyUp ''ArrowRight'']"
  have ok: "\<forall>e\<in>set ?evs. recognized_key_event e"
    by (simp add: getDirectionFromKey_def)
  have cur: "currentMovement (run ?evs (GameClient 800 600)) = Some Up"
    by code_simp
  from currentMovement_earliest_held [OF ok, of 3 800 600] cur
  obtain key where k: "earliest_held ?evs key" "getDirectionFromKey key = Some Up"
    by auto
  from k(2) have "key = ''ArrowUp''"
    by (simp add: getDirectionFromKey_def split: if_splits)
  with k(1) ok cur show ?thesis by simp
qed

subsection \<open>C2: frames that are dropped\<close>

text \<open>
  C2, as the code has it. A frame that \<^verbatim>\<open>JSON.parse\<close> rejects makes \<^verbatim>\<open>onmessage\<close> throw
  the parser's \<^verbatim>\<open>SyntaxError\<close>: nothing catches it, the client logs nothing and
  \<^verbatim>\<open>handleServerMessage\<close> is not entered. A frame whose action tag is none of the four
  case labels is handled without throwing, and only the receipt line that every frame
  gets is logged. In both cases the store (players, avatars, playerId, myPlayer,
  viewport) is unchanged, and indeed the whole client apart from the console.
\<close>

theorem dropped_frames:
  "onmessage (Malformed txt) s = (Some SyntaxError, s) \<and>
   (t \<notin> known_actions \<longrightarrow>
      onmessage (WellFormed (OtherFrame t)) s =
        (None, s\<lparr>console := console s @ [(Info, ''Received message:'')]\<rparr>)) \<and>
   (f = Malformed txt \<or> (t \<notin> known_actions \<and> f = WellFormed (OtherFrame t)) \<longrightarrow>
      store (snd (onmessage f s)) = store s)"
  by (auto simp: onmessage_def handle_OtherFrame received_def store_def)

theorem dropped_frames_witness:
  "''ping'' \<notin> known_actions \<and>
   onmessage (WellFormed (OtherFrame ''ping'')) joined_as_alice =
     (None, joined_as_alice\<lparr>console := console joined_as_alice @ [(Info, ''Received message:'')]\<rparr>) \<and>
   store (snd (onmessage (WellFormed (OtherFrame ''ping'')) joined_as_alice)) = store joined_as_alice \<and>
   onmessage (Malformed ''{'') joined_as_alice = (Some SyntaxError, joined_as_alice)"
proof -
  have k: "''ping'' \<notin> known_actions" by (simp add: known_actions_def)
  from dropped_frames [of "''{''" joined_as_alice "''ping''" "WellFormed (OtherFrame ''ping'')"] k
  show ?thesis by blast
qed

text \<open>
  As the specification states it, the property fails: on a malformed frame the handler
  throws and logs nothing; on an unknown action it logs the receipt line only.
\<close>

theorem malformed_frame_throws:
  "fst (onmessage (Malformed ''{'') (GameClient 800 600)) = Some SyntaxError \<and>
   console (snd (onmessage (Malformed ''{'') (GameClient 800 600))) = [] \<and>
   fst (onmessage (WellFormed (OtherFrame ''ping'')) (GameClient 800 600)) = None \<and>
   console (snd (onmessage (WellFormed (OtherFrame ''ping'')) (GameClient 800 600))) =
     [(Info, ''Received message:'')]"
  by (simp add: onmessage_def handleServerMessage_def andThen_def console_log_def GameClient_def)

subsection \<open>C3: centring the viewport\<close>

text \<open>
  C3, as the code has it. With a local player at any position, after
  \<^verbatim>\<open>centerViewportOnPlayer\<close> the offset on each axis is
  \<open>max 0 (min (position - surface / 2) (world - surface))\<close>. Where the surface is no larger
  than the world on that axis, this lies within \<open>[0, world - surface]\<close>; where the surface
  is larger, the offset is 0.
\<close>

theorem centred_and_clamped:
  assumes "myPlayer s = Some p"
  shows "fst (centerViewportOnPlayer s) = None \<and>
    viewportX (snd (centerViewportOnPlayer s)) =
      max 0 (min (ent_x p - of_nat (canvas_width s) / 2) (of_nat (worldWidth s) - of_nat (canvas_width s))) \<and>
    viewportY (snd (centerViewportOnPlayer s)) =
      max 0 (min (ent_y p - of_nat (canvas_height s) / 2) (of_nat (worldHeight s) - of_nat (canvas_height s))) \<and>
    (canvas_width s \<le> worldWidth s \<longrightarrow>
       0 \<le> viewportX (snd (centerViewportOnPlayer s)) \<and>
       viewportX (snd (centerViewportOnPlayer s)) \<le> of_nat (worldWidth s) - of_nat (canvas_width s)) \<and>
    (canvas_height s \<le> worldHeight s \<longrightarrow>
       0 \<le> viewportY (snd (centerViewportOnPlayer s)) \<and>
       viewportY (snd (centerViewportOnPlayer s)) \<le> of_nat (worldHeight s) - of_nat (canvas_height s)) \<and>
    (worldWidth s < canvas_width s \<longrightarrow> viewportX (snd (centerViewportOnPlayer s)) = 0) \<and>
    (worldHeight s < canvas_height s \<longrightarrow> viewportY (snd (centerViewportOnPlayer s)) = 0)"
  using assms by (simp add: centerViewportOnPlayer_eq recentred_def)

theorem centred_and_clamped_witness:
  "myPlayer (joined_as_alice\<lparr>myPlayer := Some bob\<rparr>) = Some bob \<and>
   canvas_width (joined_as_alice\<lparr>myPlayer := Some bob\<rparr>) \<le> worldWidth (joined_as_alice\<lparr>myPlayer := Some bob\<rparr>) \<and>
   canvas_height (joined_as_alice\<lparr>myPlayer := Some bob\<rparr>) \<le> worldHeight (joined_as_alice\<lparr>myPlayer := Some bob\<rparr>) \<and>
   viewportX (snd (centerViewportOnPlayer (joined_as_alice\<lparr>myPlayer := Some bob\<rparr>))) = 1100 \<and>
   viewportY (snd (centerViewportOnPlayer (joined_as_alice\<lparr>myPlayer := Some bob\<rparr>))) = 600 \<and>
   myPlayer ((GameClient 3000 600)\<lparr>myPlayer := Some bob\<rparr>) = Some bob \<and>
   worldWidth ((GameClient 3000 600)\<lparr>myPlayer := Some bob\<rparr>) < canvas_width ((GameClient 3000 600)\<lparr>myPlayer := Some bob\<rparr>) \<and>
   viewportX (snd (centerViewportOnPlayer ((GameClient 3000 600)\<lparr>myPlayer := Some bob\<rparr>))) = 0"
proof -
  have a: "myPlayer (joined_as_alice\<lparr>myPlayer := Some bob\<rparr>) = Some bob" by simp
  have b: "myPlayer ((GameClient 3000 600)\<lparr>myPlayer := Some bob\<rparr>) = Some bob" by simp
  have c: "worldWidth ((GameClient 3000 600)\<lparr>myPlayer := Some bob\<rparr>)
      < canvas_width ((GameClient 3000 600)\<lparr>myPlayer := Some bob\<rparr>)"
    by (simp add: GameClient_def)
  from centred_and_clamped [OF a] centred_and_clamped [OF b] c show ?thesis
    by (simp add: joined_as_alice_eval bob_def)
qed

text \<open>
  As the specification states it, the property fails in a window wider than the world:
  the offset is 0, above the upper bound \<open>2048 - 3000\<close>.
\<close>

theorem wide_canvas_outside_range:
  "viewportX (snd (centerViewportOnPlayer ((GameClient 3000 600)\<lparr>myPlayer := Some alice\<rparr>))) = 0 \<and>
   \<not> viewportX (snd (centerViewportOnPlayer ((GameClient 3000 600)\<lparr>myPlayer := Some alice\<rparr>)))
       \<le> of_nat (worldWidth (GameClient 3000 600)) - of_nat (canvas_width (GameClient 3000 600))"
  by (simp add: centerViewportOnPlayer_eq recentred_def GameClient_def alice_def)

subsection \<open>C4: the local-player reference\<close>




subsection \<open>C5: avatar definitions\<close>

text \<open>
  C5, as the code has it. The catalog entry under a key is left as it is by every inbound
  event except a \<^verbatim>\<open>player_joined\<close> whose avatar has that name, which stores that event's
  avatar under the key, and a successful \<^verbatim>\<open>join_game\<close>, which replaces the whole catalog
  by the snapshot.
\<close>

theorem avatar_entry_kept:
  "(\<not> rewrites_avatar k m \<longrightarrow> avatars (snd (handleServerMessage m s)) k = avatars s k) \<and>
   (avatar_name a = k \<longrightarrow> avatars (snd (handleServerMessage (PlayerJoined p a) s)) k = Some a) \<and>
   avatars (snd (handleServerMessage (JoinGameSuccess pid tbl avs) s)) = avs"
proof -
  have "avatars (snd (handleServerMessage m s)) k = avatars s k" if "\<not> rewrites_avatar k m"
  proof (cases m)
    case (PlayersMoved tbl')
    then show ?thesis
      by (cases "tbl' (property_key (playerId s))")
         (simp_all add: handle_PlayersMoved redrawn_fields recentred_fields received_fields)
  next
    case (OtherFrame t)
    then show ?thesis using handle_OtherFrame_any [of t s] by simp
  qed (use that in \<open>simp_all add: handle_JoinGameFailure handle_PlayerJoined handle_PlayerLeft
        redrawn_fields received_fields\<close>)
  then show ?thesis
    by (simp add: handle_PlayerJoined handle_JoinGameSuccess redrawn_fields refocus_fields
        received_fields)
qed

theorem avatar_entry_kept_witness:
  "\<not> rewrites_avatar ''knight'' (PlayerLeft ''p2'') \<and>
   avatars (snd (handleServerMessage (PlayerLeft ''p2'') joined_as_alice)) ''knight'' = Some knight"
  using avatar_entry_kept [of "''knight''" "PlayerLeft ''p2''" joined_as_alice]
  by (simp add: joined_as_alice_eval)

text \<open>
  As the specification states it, the property fails: a later \<^verbatim>\<open>player_joined\<close> with an
  avatar of the same name replaces the stored definition.
\<close>

theorem avatar_entry_replaced:
  "avatars joined_as_alice ''knight'' = Some knight \<and>
   avatars (snd (handleServerMessage (PlayerJoined carol knight_redrawn) joined_as_alice)) ''knight''
     = Some knight_redrawn \<and>
   knight_redrawn \<noteq> knight"
  by (simp add: handle_PlayerJoined redrawn_fields received_fields joined_as_alice_eval
      knight_def knight_redrawn_def)

subsection \<open>C6: the stop message\<close>

text \<open>
  C6, as the code has it. In every reachable state, when an event releases all held
  keys (the key-up of the only pressed key, or a focus loss while keys are pressed), the
  resend timer is cancelled, no timer stays alive and the active direction is cleared;
  exactly one \<^verbatim>\<open>stop\<close> message and nothing else is sent when the transport is open, and
  nothing is sent when it is not.
\<close>

theorem release_all_stops:
  assumes "releases_all (run evs (GameClient w h)) e"
  shows "fst (dispatch e (run evs (GameClient w h))) = None \<and>
    keysPressed (snd (dispatch e (run evs (GameClient w h)))) = [] \<and>
    outbox (snd (dispatch e (run evs (GameClient w h)))) =
      outbox (run evs (GameClient w h)) @
        (if transport_open (run evs (GameClient w h)) then [Stop] else []) \<and>
    timers (snd (dispatch e (run evs (GameClient w h)))) = [] \<and>
    movementInterval (snd (dispatch e (run evs (GameClient w h)))) = None \<and>
    currentMovement (snd (dispatch e (run evs (GameClient w h)))) = None"
proof -
  define s where "s = run evs (GameClient w h)"
  have inv: "movement_inv s" unfolding s_def by (rule run_inv [OF GameClient_inv])
  from assms have rel: "releases_all s e" by (simp add: s_def)
  then have held: "keysPressed s \<noteq> []" by (cases e) auto
  with inv have cur: "currentMovement s \<noteq> None"
    by (cases "keysPressed s") (simp_all add: movement_inv_head)
  from inv cur obtain t where tm: "movementInterval s = Some t" "timers s = [t]"
    by (auto simp: movement_inv_def)
  have "dispatch e s = stopContinuousMovement (s\<lparr>keysPressed := []\<rparr>)"
  proof (cases e)
    case (KeyUp key)
    with rel have k: "keysPressed s = [key]" by simp
    with inv have "getDirectionFromKey key \<noteq> None" by (rule movement_inv_head(2))
    with k KeyUp show ?thesis
      by (simp add: handleKeyUp_def updateMovement_def activeDirections_def)
  next
    case Blur
    then show ?thesis by (simp add: handleBlur_def)
  qed (use rel in simp_all)
  with stop_effect [of "s\<lparr>keysPressed := []\<rparr>"] cur tm show ?thesis
    unfolding s_def [symmetric] by (simp add: outbox_def transport_open_def)
qed

theorem release_all_stops_witness:
  "releases_all (run [SocketOpen, KeyDown ''ArrowUp''] (GameClient 800 600)) (KeyUp ''ArrowUp'') \<and>
   outbox (snd (dispatch (KeyUp ''ArrowUp'') (run [SocketOpen, KeyDown ''ArrowUp''] (GameClient 800 600))))
     = [JoinGameMsg ''Tim'', Move Up, Stop] \<and>
   timers (snd (dispatch (KeyUp ''ArrowUp'') (run [SocketOpen, KeyDown ''ArrowUp''] (GameClient 800 600))))
     = [] \<and>
   movementInterval (snd (dispatch (KeyUp ''ArrowUp'')
      (run [SocketOpen, KeyDown ''ArrowUp''] (GameClient 800 600)))) = None"
proof -
  have r: "releases_all (run [SocketOpen, KeyDown ''ArrowUp''] (GameClient 800 600)) (KeyUp ''ArrowUp'')"
    by (simp only: releases_all.simps moving_up_eval)
  from release_all_stops [OF r] r show ?thesis
    by (simp only: moving_up_eval if_True append.simps simp_thms)
qed

text \<open>
  As the specification states it, the property fails once the socket has closed:
  releasing the key sends nothing.
\<close>

theorem release_while_closed_sends_nothing:
  "releases_all (run [SocketOpen, KeyDown ''ArrowUp'', SocketClose] (GameClient 800 600)) (KeyUp ''ArrowUp'') \<and>
   outbox (run [SocketOpen, KeyDown ''ArrowUp'', SocketClose] (GameClient 800 600))
     = [JoinGameMsg ''Tim'', Move Up] \<and>
   outbox (snd (dispatch (KeyUp ''ArrowUp'')
      (run [SocketOpen, KeyDown ''ArrowUp'', SocketClose] (GameClient 800 600))))
     = [JoinGameMsg ''Tim'', Move Up]"
  by (simp only: releases_all.simps moving_up_eval simp_thms)

subsection \<open>C7: merging moved players\<close>

text \<open>
  C7. A \<^verbatim>\<open>players_moved\<close> event is handled without throwing; the table entry of every
  identifier in the payload becomes the payload's entity, and the entry of every other
  identifier, with all its attributes, stays as it was. The avatar catalog and the
  local identifier are unchanged.
\<close>

theorem players_moved_merges:
  "fst (handleServerMessage (PlayersMoved tbl) s) = None \<and>
   (tbl k \<noteq> None \<longrightarrow> players (snd (handleServerMessage (PlayersMoved tbl) s)) k = tbl k) \<and>
   (tbl k = None \<longrightarrow> players (snd (handleServerMessage (PlayersMoved tbl) s)) k = players s k) \<and>
   avatars (snd (handleServerMessage (PlayersMoved tbl) s)) = avatars s \<and>
   playerId (snd (handleServerMessage (PlayersMoved tbl) s)) = playerId s"
  by (cases "tbl (property_key (playerId s))")
     (auto simp: handle_PlayersMoved redrawn_fields recentred_fields received_fields map_add_def)

theorem players_moved_merges_witness:
  "[''p2'' \<mapsto> bob_moved] ''p2'' \<noteq> None \<and> [''p2'' \<mapsto> bob_moved] ''p1'' = None \<and>
   players (snd (handleServerMessage (PlayersMoved [''p2'' \<mapsto> bob_moved]) joined_as_alice)) ''p2''
     = Some bob_moved \<and>
   players (snd (handleServerMessage (PlayersMoved [''p2'' \<mapsto> bob_moved]) joined_as_alice)) ''p1''
     = Some alice"
  using players_moved_merges [of "[''p2'' \<mapsto> bob_moved]" joined_as_alice "''p2''"]
    players_moved_merges [of "[''p2'' \<mapsto> bob_moved]" joined_as_alice "''p1''"]
  by (simp add: joined_as_alice_eval)

subsection \<open>C8: sending while the transport is not open\<close>

text \<open>
  C8. When there is no socket or its state is not \<^verbatim>\<open>OPEN\<close>, sending a move or a stop
  returns without an exception and leaves the whole client as it was: nothing is handed
  to the socket and nothing is kept for later.
\<close>

theorem not_open_send_is_noop:
  assumes "\<not> transport_open s"
  shows "sendMovementCommand d s = (None, s) \<and> sendStopCommand s = (None, s)"
  using assms by (simp add: sendMovementCommand_eq sendStopCommand_eq)

theorem not_open_send_is_noop_witness:
  "\<not> transport_open (GameClient 800 600) \<and>
   sendMovementCommand Up (GameClient 800 600) = (None, GameClient 800 600) \<and>
   sendStopCommand (GameClient 800 600) = (None, GameClient 800 600)"
proof -
  have n: "\<not> transport_open (GameClient 800 600)"
    by (simp add: transport_open_def GameClient_def)
  from not_open_send_is_noop [OF n] n show ?thesis by simp
qed

subsection \<open>C9: world and screen coordinates\<close>

text \<open>
  C9, as the code has it. \<^verbatim>\<open>worldToScreen\<close> reads the viewport offset and returns, on each
  axis, the double nearest to the point minus the offset; it returns no client, so it
  changes none. When the point and the offset are integers or half-integers of magnitude
  below 2 to the power 51, the result is the point minus the offset exactly, and
  composing with the inverse (adding the offset back), in either order, returns the
  point exactly.
\<close>

theorem worldToScreen_rounds:
  "worldToScreen s worldX worldY =
     (to_double (worldX - viewportX s), to_double (worldY - viewportY s)) \<and>
   (half_unit worldX \<and> half_unit worldY \<and> half_unit (viewportX s) \<and> half_unit (viewportY s) \<longrightarrow>
      worldToScreen s worldX worldY = (worldX - viewportX s, worldY - viewportY s) \<and>
      (case worldToScreen s worldX worldY of (x, y) \<Rightarrow> screenToWorld s x y) = (worldX, worldY) \<and>
      (case screenToWorld s worldX worldY of (x, y) \<Rightarrow> worldToScreen s x y) = (worldX, worldY))"
  by (simp add: worldToScreen_def screenToWorld_def half_unit_combine half_unit_exact)

theorem worldToScreen_rounds_witness:
  "half_unit 1500 \<and> half_unit 900 \<and> half_unit (viewportX joined_as_bob) \<and>
   half_unit (viewportY joined_as_bob) \<and>
   worldToScreen joined_as_bob 1500 900 = (400, 300) \<and>
   screenToWorld joined_as_bob 400 300 = (1500, 900)"
proof -
  have h: "half_unit 1500" "half_unit 900" "half_unit (viewportX joined_as_bob)"
    "half_unit (viewportY joined_as_bob)"
    unfolding joined_as_bob_eval by code_simp+
  with worldToScreen_rounds [of joined_as_bob 1500 900]
  have w: "worldToScreen joined_as_bob 1500 900 = (1500 - viewportX joined_as_bob, 900 - viewportY joined_as_bob)"
    and r: "(case worldToScreen joined_as_bob 1500 900 of (x, y) \<Rightarrow> screenToWorld joined_as_bob x y)
      = (1500, 900)"
    by blast+
  from w have w': "worldToScreen joined_as_bob 1500 900 = (400, 300)"
    by (simp add: joined_as_bob_eval)
  from r have "screenToWorld joined_as_bob 400 300 = (1500, 900)" unfolding w' by simp
  with h w' show ?thesis by blast
qed

text \<open>
  As the specification states it, for every point, the property fails: with the offset
  1100 the double 0.1 is mapped to a double that is not the difference, and adding the
  offset back gives 0.09999999999990905.
\<close>

theorem worldToScreen_roundtrip_inexact:
  "viewportX joined_as_bob = 1100 \<and>
   fst (worldToScreen joined_as_bob (to_double (1 / 10)) 900) \<noteq> to_double (1 / 10) - 1100 \<and>
   (case worldToScreen joined_as_bob (to_double (1 / 10)) 900 of (x, y) \<Rightarrow> screenToWorld joined_as_bob x y)
     \<noteq> (to_double (1 / 10), 900)"
proof -
  have a: "to_double (to_double (1 / 10) - 1100) \<noteq> to_double (1 / 10) - 1100" by code_simp
  have b: "to_double (to_double (to_double (1 / 10) - 1100) + 1100) \<noteq> to_double (1 / 10)"
    by code_simp
  from a b show ?thesis
    by (simp add: worldToScreen_def screenToWorld_def joined_as_bob_eval)
qed

subsection \<open>C10: moved players before the join\<close>

text \<open>
  While \<^verbatim>\<open>playerId\<close> is still \<^verbatim>\<open>null\<close>, a \<^verbatim>\<open>players_moved\<close> event whose payload has no
  entry named \<^verbatim>\<open>"null"\<close> is merged into the table without an exception and leaves
  \<^verbatim>\<open>myPlayer\<close> and the viewport offset unchanged.
\<close>

lemma moved_before_join_without_null_entry:
  assumes "playerId s = None" and "tbl ''null'' = None"
  shows "fst (handleServerMessage (PlayersMoved tbl) s) = None \<and>
    players (snd (handleServerMessage (PlayersMoved tbl) s)) = players s ++ tbl \<and>
    myPlayer (snd (handleServerMessage (PlayersMoved tbl) s)) = myPlayer s \<and>
    viewportX (snd (handleServerMessage (PlayersMoved tbl) s)) = viewportX s \<and>
    viewportY (snd (handleServerMessage (PlayersMoved tbl) s)) = viewportY s"
  using assms
  by (simp add: handle_PlayersMoved property_key_def redrawn_fields received_fields)

text \<open>
  C10. A \<^verbatim>\<open>players_moved\<close> event that arrives before the join should be merged and leave
  the local-player reference and the viewport alone. The code misses the case of a
  payload with an entry named \<^verbatim>\<open>"null"\<close>: the guard \<^verbatim>\<open>message.players[this.playerId]\<close>
  has no null check, the lookup with \<^verbatim>\<open>playerId\<close> \<^verbatim>\<open>null\<close> finds that entry, the entity
  becomes \<^verbatim>\<open>myPlayer\<close> and the viewport is centred on it.
\<close>

theorem moved_before_join_null_key:
  "playerId (GameClient 800 600) = None \<and>
   myPlayer (GameClient 800 600) = None \<and>
   viewportX (GameClient 800 600) = 0 \<and>
   viewportY (GameClient 800 600) = 0 \<and>
   fst (handleServerMessage (PlayersMoved [''null'' \<mapsto> stranger]) (GameClient 800 600)) = None \<and>
   playerId (snd (handleServerMessage (PlayersMoved [''null'' \<mapsto> stranger]) (GameClient 800 600)))
     = None \<and>
   myPlayer (snd (handleServerMessage (PlayersMoved [''null'' \<mapsto> stranger]) (GameClient 800 600)))
     = Some stranger \<and>
   viewportX (snd (handleServerMessage (PlayersMoved [''null'' \<mapsto> stranger]) (GameClient 800 600)))
     = 600 \<and>
   viewportY (snd (handleServerMessage (PlayersMoved [''null'' \<mapsto> stranger]) (GameClient 800 600)))
     = 700"
  by (simp add: handle_PlayersMoved property_key_def redrawn_def recentred_def received_def
      GameClient_def stranger_def)

end
